theory Spec2Isabelle
  imports Complex_Main "HOL-Library.Multiset"
begin

section \<open>The scoring engine (pidgeon/analysis/analyzer.py)\<close>

text \<open>
  Python floats are modelled as real numbers, and a missing value (NaN, or \<open>None\<close>
  when the column does not exist, both caught by \<open>pd.isna\<close>) as \<open>None\<close>.
  Decimal constants such as 0.2 are the exact rationals; rounding and overflow
  of the floating-point operations are not modelled.  A division of Python
  floats whose divisor is zero raises \<open>ZeroDivisionError\<close>; the model returns
  that error as a value.
\<close>

datatype error = ZeroDivisionError

definition fdiv :: "real \<Rightarrow> real \<Rightarrow> error + real" where
  "fdiv a b = (if b = 0 then Inl ZeroDivisionError else Inr (a / b))"

record ScoringWeights =
  price_weight :: real
  fee_weight :: real
  price_per_m2_weight :: real
  rooms_weight :: real
  year_built_weight :: real
  elevator_weight :: real
  balcony_weight :: real
  floor_weight :: real

definition default_weights :: ScoringWeights where
  "default_weights =
     \<lparr> price_weight = 3/10, fee_weight = 2/10, price_per_m2_weight = 25/100,
       rooms_weight = 1/10, year_built_weight = 1/10,
       elevator_weight = 3/100, balcony_weight = 2/100, floor_weight = 0 \<rparr>"

record ScoringPreferences =
  max_preferred_price :: int
  min_acceptable_price :: int
  max_preferred_fee :: int
  min_acceptable_fee :: int
  max_preferred_price_per_m2 :: int
  min_acceptable_price_per_m2 :: int
  min_preferred_rooms :: real
  max_preferred_rooms :: real
  min_preferred_year :: int
  preferred_year_threshold :: int
  preferred_min_floor :: "int option"
  preferred_max_floor :: "int option"
  avoid_ground_floor :: bool

definition default_preferences :: ScoringPreferences where
  "default_preferences =
     \<lparr> max_preferred_price = 4000000, min_acceptable_price = 1000000,
       max_preferred_fee = 5000, min_acceptable_fee = 2000,
       max_preferred_price_per_m2 = 70000, min_acceptable_price_per_m2 = 30000,
       min_preferred_rooms = 2, max_preferred_rooms = 4,
       min_preferred_year = 1960, preferred_year_threshold = 1990,
       preferred_min_floor = Some 2, preferred_max_floor = Some 6,
       avoid_ground_floor = True \<rparr>"

text \<open>
  \<open>score_price\<close>, \<open>score_fee\<close> and \<open>score_price_per_m2\<close> have one body up to
  the value returned for a missing input, the two reference points and the
  factor of the decay; \<open>score_lower_is_better\<close> is that body.
\<close>

definition score_lower_is_better :: "real \<Rightarrow> int \<Rightarrow> int \<Rightarrow> real \<Rightarrow> error + real" where
  "score_lower_is_better k max_preferred min_acceptable v =
     (if v \<le> real_of_int max_preferred then
        (case fdiv (v - real_of_int min_acceptable)
                   (real_of_int (max_preferred - min_acceptable)) of
           Inl e \<Rightarrow> Inl e
         | Inr q \<Rightarrow> Inr (max 0 (min 1 (1 - q))))
      else
        (case fdiv (v - real_of_int max_preferred) (real_of_int max_preferred) of
           Inl e \<Rightarrow> Inl e
         | Inr decay_factor \<Rightarrow> Inr (max 0 (k * exp (- decay_factor)))))"

definition score_price :: "ScoringPreferences \<Rightarrow> real option \<Rightarrow> error + real" where
  "score_price p price =
     (case price of
        None \<Rightarrow> Inr 0
      | Some v \<Rightarrow>
          score_lower_is_better (3/10) (max_preferred_price p) (min_acceptable_price p) v)"

definition score_fee :: "ScoringPreferences \<Rightarrow> real option \<Rightarrow> error + real" where
  "score_fee p fee =
     (case fee of
        None \<Rightarrow> Inr (1/2)
      | Some v \<Rightarrow>
          score_lower_is_better (3/10) (max_preferred_fee p) (min_acceptable_fee p) v)"

definition score_price_per_m2 :: "ScoringPreferences \<Rightarrow> real option \<Rightarrow> error + real" where
  "score_price_per_m2 p price_per_m2 =
     (case price_per_m2 of
        None \<Rightarrow> Inr (1/2)
      | Some v \<Rightarrow>
          score_lower_is_better (2/10) (max_preferred_price_per_m2 p)
            (min_acceptable_price_per_m2 p) v)"

definition score_rooms :: "ScoringPreferences \<Rightarrow> real option \<Rightarrow> error + real" where
  "score_rooms p rooms =
     (case rooms of
        None \<Rightarrow> Inr (1/2)
      | Some r \<Rightarrow>
          if min_preferred_rooms p \<le> r \<and> r \<le> max_preferred_rooms p then Inr 1
          else if r < min_preferred_rooms p then
            (case fdiv r (min_preferred_rooms p) of
               Inl e \<Rightarrow> Inl e
             | Inr q \<Rightarrow> Inr (max 0 q))
          else
            (let excess = r - max_preferred_rooms p
             in Inr (max (1/10) (1 - (1/10) * excess))))"

definition score_year_built :: "ScoringPreferences \<Rightarrow> real option \<Rightarrow> error + real" where
  "score_year_built p year_built =
     (case year_built of
        None \<Rightarrow> Inr (1/2)
      | Some y \<Rightarrow>
          if y \<ge> real_of_int (preferred_year_threshold p) then Inr 1
          else if y \<ge> real_of_int (min_preferred_year p) then
            (case fdiv (y - real_of_int (min_preferred_year p))
                       (real_of_int (preferred_year_threshold p - min_preferred_year p)) of
               Inl e \<Rightarrow> Inl e
             | Inr score \<Rightarrow> Inr (max (1/10) score))
          else Inr (1/10))"

text \<open>
  Truth value of an \<open>Optional[int]\<close> preference: \<open>None\<close> and 0 are false.
\<close>

definition truthy_opt_int :: "int option \<Rightarrow> bool" where
  "truthy_opt_int x = (case x of None \<Rightarrow> False | Some n \<Rightarrow> n \<noteq> 0)"

text \<open>
  \<open>score_floor\<close> divides nothing and cannot fail.  The second argument is
  accepted and never read, as in the source.
\<close>

definition score_floor :: "ScoringPreferences \<Rightarrow> real option \<Rightarrow> real option \<Rightarrow> real" where
  "score_floor p floor_val total_floors =
     (case floor_val of
        None \<Rightarrow> 1/2
      | Some f \<Rightarrow>
          if avoid_ground_floor p \<and> f \<le> 1 then 2/10
          else if truthy_opt_int (preferred_min_floor p) \<and> truthy_opt_int (preferred_max_floor p) then
            (if real_of_int (the (preferred_min_floor p)) \<le> f
                \<and> f \<le> real_of_int (the (preferred_max_floor p)) then 1
             else if f < real_of_int (the (preferred_min_floor p)) then 6/10
             else 7/10)
          else 8/10)"

text \<open>
  A row of the cleaned frame, as \<open>calculate_apartment_score\<close> reads it with
  \<open>apartment.get\<close>: the numeric columns after \<open>clean_data\<close> (a number or
  missing) and the two boolean columns (\<open>False\<close> when the column is absent).
\<close>

record apartment =
  price :: "real option"
  fee :: "real option"
  price_per_m2 :: "real option"
  rooms :: "real option"
  year_built :: "real option"
  floor_val :: "real option"
  total_floors :: "real option"
  has_elevator :: bool
  has_balcony :: bool

definition bind_error :: "error + 'a \<Rightarrow> ('a \<Rightarrow> error + 'b) \<Rightarrow> error + 'b" where
  "bind_error m f = (case m of Inl e \<Rightarrow> Inl e | Inr x \<Rightarrow> f x)"

text \<open>
  The sub-scores are computed in the order of the source, so the first
  division that fails is the error of the whole call.
\<close>

definition calculate_apartment_score ::
  "ScoringWeights \<Rightarrow> ScoringPreferences \<Rightarrow> apartment \<Rightarrow> error + real" where
  "calculate_apartment_score w p a =
     bind_error (score_price p (price a)) (\<lambda>s_price.
     bind_error (score_fee p (fee a)) (\<lambda>s_fee.
     bind_error (score_price_per_m2 p (price_per_m2 a)) (\<lambda>s_ppm2.
     bind_error (score_rooms p (rooms a)) (\<lambda>s_rooms.
     bind_error (score_year_built p (year_built a)) (\<lambda>s_year.
       (let score = 0 + price_weight w * s_price;
            score = score + fee_weight w * s_fee;
            score = score + price_per_m2_weight w * s_ppm2;
            score = score + rooms_weight w * s_rooms;
            score = score + year_built_weight w * s_year;
            score = score + floor_weight w * score_floor p (floor_val a) (total_floors a);
            score = (if has_elevator a then score + elevator_weight w else score);
            score = (if has_balcony a then score + balcony_weight w else score)
        in Inr (min 1 score)))))))"

text \<open>
  \<open>df.apply(calculate_apartment_score, axis=1)\<close>: one score per row, in row
  order; an exception in one row ends the whole analysis.
\<close>

fun apply_scores ::
  "ScoringWeights \<Rightarrow> ScoringPreferences \<Rightarrow> apartment list \<Rightarrow> error + (apartment \<times> real) list" where
  "apply_scores w p [] = Inr []"
| "apply_scores w p (a # df) =
     bind_error (calculate_apartment_score w p a) (\<lambda>s.
     bind_error (apply_scores w p df) (\<lambda>rest. Inr ((a, s) # rest)))"

text \<open>
  \<open>sort_values('score', ascending=False)\<close> is pandas code; it is modelled by
  an insertion sort on the score, largest first.  Which of two rows of equal
  score pandas puts first is not fixed by the source (the default sort kind
  is not stable); this model keeps them in frame order.
\<close>

fun insert_desc :: "apartment \<times> real \<Rightarrow> (apartment \<times> real) list \<Rightarrow> (apartment \<times> real) list" where
  "insert_desc x [] = [x]"
| "insert_desc x (y # ys) = (if snd y \<le> snd x then x # y # ys else y # insert_desc x ys)"

definition sort_values_desc :: "(apartment \<times> real) list \<Rightarrow> (apartment \<times> real) list" where
  "sort_values_desc xs = foldr insert_desc xs []"

record ranked =
  row :: apartment
  score :: real
  rank :: nat

text \<open>
  \<open>reset_index(drop=True)\<close> followed by \<open>df_scored['rank'] = range(1, len(df_scored) + 1)\<close>.
\<close>

definition assign_rank :: "(apartment \<times> real) list \<Rightarrow> ranked list" where
  "assign_rank xs =
     map (\<lambda>(r, (a, s)). \<lparr> row = a, score = s, rank = r \<rparr>) (zip [1 ..< Suc (length xs)] xs)"

definition analyze_apartments ::
  "ScoringWeights \<Rightarrow> ScoringPreferences \<Rightarrow> apartment list \<Rightarrow> error + ranked list" where
  "analyze_apartments w p df =
     bind_error (apply_scores w p df) (\<lambda>df_clean.
       Inr (assign_rank (sort_values_desc df_clean)))"

text \<open>
  The predicates used to state the range of the scores: \<open>in_unit r\<close> says that
  the call returned a score (no exception) and that the score lies in [0,1].
\<close>

definition in_unit :: "error + real \<Rightarrow> bool" where
  "in_unit r = (case r of Inl e \<Rightarrow> False | Inr s \<Rightarrow> 0 \<le> s \<and> s \<le> 1)"


text \<open>
  Preferences under which no scoring function divides by zero and the three
  preferred ceilings and \<open>min_preferred_rooms\<close> are positive.  The defaults are
  of this kind.
\<close>

definition preferences_regular :: "ScoringPreferences \<Rightarrow> bool" where
  "preferences_regular p =
     (0 < max_preferred_price p \<and> max_preferred_price p \<noteq> min_acceptable_price p
      \<and> 0 < max_preferred_fee p \<and> max_preferred_fee p \<noteq> min_acceptable_fee p
      \<and> 0 < max_preferred_price_per_m2 p
      \<and> max_preferred_price_per_m2 p \<noteq> min_acceptable_price_per_m2 p
      \<and> 0 < min_preferred_rooms p)"


text \<open>
  Three rows of the sample frame of tests/test_analyzer.py.
\<close>

definition apartment_example :: apartment where
  "apartment_example =
     \<lparr> price = Some 3000000, fee = Some 3000, price_per_m2 = Some 50000, rooms = Some 2,
       year_built = Some 1995, floor_val = Some 2, total_floors = Some 5,
       has_elevator = True, has_balcony = True \<rparr>"

definition apartment_b :: apartment where
  "apartment_b =
     \<lparr> price = Some 4000000, fee = Some 4500, price_per_m2 = Some 60000, rooms = Some 3,
       year_built = Some 2010, floor_val = Some 4, total_floors = Some 8,
       has_elevator = True, has_balcony = False \<rparr>"

definition apartment_c :: apartment where
  "apartment_c =
     \<lparr> price = Some 2500000, fee = Some 2800, price_per_m2 = Some 45000, rooms = Some 1,
       year_built = Some 1980, floor_val = Some 1, total_floors = Some 3,
       has_elevator = False, has_balcony = True \<rparr>"

section \<open>The item pipelines (pidgeon/pipelines.py, pidgeon/items.py)\<close>

text \<open>
  A scrapy item is a mapping from field names to untyped Python values.  The
  values modelled are \<open>None\<close>, booleans, integers and text;
  \<open>item.get(field)\<close> is \<open>None\<close> for a field that was never set.  The
  \<open>spider\<close> argument of every \<open>process_item\<close> is only used for logging
  and is left out, as is the logging itself.

  Text is a list of characters; the character with code n stands for the
  Python character with code point n, so the texts modelled are those over
  the code points 0 to 255 (ASCII and Latin-1).

  The integers modelled are those that Python converts to text: \<open>str\<close>,
  \<open>repr\<close> and every f-string that prints an item refuse an integer of more
  than 4300 digits with \<open>ValueError\<close> (the default limit of Python 3.11 and
  of the security releases before it).  Such integers are excluded by the
  type \<open>pyint\<close>, so that printing a value never fails in the model.
\<close>

definition max_str_digits :: nat where
  "max_str_digits = 4300"

typedef pyint = "{n :: int. \<bar>n\<bar> < 10 ^ max_str_digits}"
  morphisms int_of mk_pyint
  by (rule exI [of _ 0]) simp

datatype pyval = PyNone | PyBool bool | PyInt pyint | PyStr string

type_synonym item = "string \<rightharpoonup> pyval"

definition item_get :: "item \<Rightarrow> string \<Rightarrow> pyval" where
  "item_get it field = (case it field of None \<Rightarrow> PyNone | Some v \<Rightarrow> v)"

text \<open>
  \<open>bool(v)\<close>, the truth value that \<open>if v\<close> and \<open>not v\<close> test.
\<close>

fun truthy :: "pyval \<Rightarrow> bool" where
  "truthy PyNone = False"
| "truthy (PyBool b) = b"
| "truthy (PyInt n) = (int_of n \<noteq> 0)"
| "truthy (PyStr s) = (s \<noteq> [])"

text \<open>
  \<open>str(v)\<close>; an integer is printed in decimal with a leading minus sign.
\<close>

definition digit_char :: "nat \<Rightarrow> char" where
  "digit_char d = ''0123456789'' ! d"

fun str_of_nat :: "nat \<Rightarrow> string" where
  "str_of_nat n = (if n < 10 then [digit_char n] else str_of_nat (n div 10) @ [digit_char (n mod 10)])"

declare str_of_nat.simps [simp del]

definition str_of_int :: "int \<Rightarrow> string" where
  "str_of_int i = (if i < 0 then CHR ''-'' # str_of_nat (nat (- i)) else str_of_nat (nat i))"

fun py_str :: "pyval \<Rightarrow> string" where
  "py_str PyNone = ''None''"
| "py_str (PyBool b) = (if b then ''True'' else ''False'')"
| "py_str (PyInt n) = str_of_int (int_of n)"
| "py_str (PyStr s) = s"

text \<open>
  White space as \<open>str.strip()\<close> sees it (\<open>str.isspace\<close>): tab to carriage
  return, the separators 0x1C to 0x1F, the space, and in Latin-1 the next-line
  character 0x85 and the no-break space 0xA0.
\<close>

definition is_space :: "char \<Rightarrow> bool" where
  "is_space c =
     (let n = (of_char c :: nat)
      in (9 \<le> n \<and> n \<le> 13) \<or> (28 \<le> n \<and> n \<le> 32) \<or> n = 133 \<or> n = 160)"

text \<open>
  White space as \<open>int(s)\<close> skips it around the number.  The parser skips the
  C white space (tab to carriage return, and the space); before that, every
  character from code point 127 on that \<open>str.isspace\<close> accepts is turned into
  a space, which adds 0x85 and 0xA0.  The separators 0x1C to 0x1F are below
  127, are left as they are and are not skipped.
\<close>

definition is_int_space :: "char \<Rightarrow> bool" where
  "is_int_space c =
     (let n = (of_char c :: nat)
      in (9 \<le> n \<and> n \<le> 13) \<or> n = 32 \<or> n = 133 \<or> n = 160)"

definition is_digit :: "char \<Rightarrow> bool" where
  "is_digit c = (let n = (of_char c :: nat) in 48 \<le> n \<and> n \<le> 57)"

definition digit_val :: "char \<Rightarrow> nat" where
  "digit_val c = of_char c - 48"

definition py_strip :: "string \<Rightarrow> string" where
  "py_strip s = rev (dropWhile is_space (rev (dropWhile is_space s)))"

definition int_strip :: "string \<Rightarrow> string" where
  "int_strip s = rev (dropWhile is_int_space (rev (dropWhile is_int_space s)))"

text \<open>
  \<open>int(s)\<close> on text: white space around the number is skipped, one sign is
  allowed, and the digits may be grouped by single underscores.  Anything
  else raises \<open>ValueError\<close>, and so does a number of more than
  \<open>max_str_digits\<close> digits (underscores and sign not counted);
  \<open>ValueError\<close> is \<open>None\<close> here.
\<close>

fun int_digits :: "nat \<Rightarrow> bool \<Rightarrow> string \<Rightarrow> nat option" where
  "int_digits acc after_digit [] = (if after_digit then Some acc else None)"
| "int_digits acc after_digit (c # cs) =
     (if is_digit c then int_digits (10 * acc + digit_val c) True cs
      else if c = CHR ''_'' \<and> after_digit then int_digits acc False cs
      else None)"

definition int_body :: "string \<Rightarrow> nat option" where
  "int_body cs =
     (if max_str_digits < length (filter is_digit cs) then None else int_digits 0 False cs)"

definition py_int :: "string \<Rightarrow> int option" where
  "py_int s =
     (case int_strip s of
        [] \<Rightarrow> None
      | c # cs \<Rightarrow>
          if c = CHR ''-'' then map_option (\<lambda>n. - int n) (int_body cs)
          else if c = CHR ''+'' then map_option int (int_body cs)
          else map_option int (int_body (c # cs)))"

subsection \<open>ValidationPipeline\<close>

text \<open>
  \<open>raise DropItem(...)\<close> is the left summand; the constructor stands for the
  message.
\<close>

datatype drop_item =
    Missing_required_field string
  | Invalid_price pyval
  | Invalid_fee pyval
  | Duplicate_item pyval

definition required_fields :: "string list" where
  "required_fields = [''url'', ''source'', ''address'']"

fun check_required :: "string list \<Rightarrow> item \<Rightarrow> drop_item option" where
  "check_required [] it = None"
| "check_required (field # rest) it =
     (if \<not> truthy (item_get it field) then Some (Missing_required_field field)
      else check_required rest it)"

text \<open>
  \<open>.replace(' ', '').replace(',', '')\<close>
\<close>

definition remove_separators :: "string \<Rightarrow> string" where
  "remove_separators s = filter (\<lambda>c. c \<noteq> CHR '','') (filter (\<lambda>c. c \<noteq> CHR '' '') s)"

text \<open>
  The price block.  \<open>DropItem\<close> raised inside the \<open>try\<close> is not caught
  by \<open>except (ValueError, TypeError)\<close> and leaves the method; a \<open>ValueError\<close>
  of \<open>int\<close> is caught, a warning is logged and validation goes on.  The
  result \<open>None\<close> means that the block raised nothing.
\<close>

definition validate_price :: "item \<Rightarrow> drop_item option" where
  "validate_price it =
     (if truthy (item_get it ''price'') then
        (case py_int (remove_separators (py_str (item_get it ''price''))) of
           None \<Rightarrow> None
         | Some price_value \<Rightarrow>
             if price_value \<le> 0 then Some (Invalid_price (item_get it ''price'')) else None)
      else None)"

definition validate_fee :: "item \<Rightarrow> drop_item option" where
  "validate_fee it =
     (if truthy (item_get it ''fee'') then
        (case py_int (remove_separators (py_str (item_get it ''fee''))) of
           None \<Rightarrow> None
         | Some fee_value \<Rightarrow>
             if fee_value < 0 then Some (Invalid_fee (item_get it ''fee'')) else None)
      else None)"

text \<open>
  What leaves \<open>ValidationPipeline.process_item\<close> as an exception: a
  \<open>DropItem\<close>, or the \<open>OverflowError\<close> of the rooms block.
\<close>

datatype raised = DropItem drop_item | OverflowError

text \<open>
  The rooms block.  \<open>float(item['rooms'])\<close> raises \<open>OverflowError\<close> for an
  integer that rounds to 2^1024 or more, that is from 2^1024 - 2^970 on in
  absolute value, and \<open>except (ValueError, TypeError)\<close> does not catch it.
  On text \<open>float\<close> returns a number (possibly \<open>inf\<close>) or raises
  \<open>ValueError\<close>, which is caught.  Everything else in the block logs a
  warning at most.
\<close>

definition float_overflow_bound :: int where
  "float_overflow_bound = 2 ^ 1024 - 2 ^ 970"

definition validate_rooms :: "item \<Rightarrow> raised option" where
  "validate_rooms it =
     (if truthy (item_get it ''rooms'') then
        (case item_get it ''rooms'' of
           PyInt n \<Rightarrow>
             if float_overflow_bound \<le> \<bar>int_of n\<bar> then Some OverflowError else None
         | _ \<Rightarrow> None)
      else None)"

text \<open>
  The part of the method after the price block: the fee block, the rooms
  block, and the \<open>year_built\<close> block, which catches the \<open>ValueError\<close> of
  \<open>int\<close>, only logs warnings and so contributes nothing here; then the item
  is returned unchanged.
\<close>

definition validate_after_price :: "item \<Rightarrow> raised + item" where
  "validate_after_price it =
     (case validate_fee it of
        Some d \<Rightarrow> Inl (DropItem d)
      | None \<Rightarrow>
          (case validate_rooms it of
             Some e \<Rightarrow> Inl e
           | None \<Rightarrow> Inr it))"

definition ValidationPipeline_process_item :: "item \<Rightarrow> raised + item" where
  "ValidationPipeline_process_item it =
     (case check_required required_fields it of
        Some d \<Rightarrow> Inl (DropItem d)
      | None \<Rightarrow>
          (case validate_price it of
             Some d \<Rightarrow> Inl (DropItem d)
           | None \<Rightarrow> validate_after_price it))"


subsection \<open>DuplicatesPipeline\<close>

text \<open>
  \<open>seen_urls\<close> is a Python set, whose members are compared with \<open>==\<close>.
  Under \<open>==\<close> a boolean equals the integer 0 or 1; \<open>py_key\<close> maps every
  value to one representative of its class, and the set holds the
  representatives.  For text and \<open>None\<close> it is the value itself.
\<close>

fun py_key :: "pyval \<Rightarrow> pyval" where
  "py_key (PyBool b) = PyInt (mk_pyint (if b then 1 else 0))"
| "py_key v = v"

text \<open>
  The state of the pipeline object is passed in and returned.
\<close>

definition DuplicatesPipeline_process_item ::
  "pyval set \<Rightarrow> item \<Rightarrow> (drop_item + item) \<times> pyval set" where
  "DuplicatesPipeline_process_item seen_urls it =
     (let url = item_get it ''url''
      in if py_key url \<in> seen_urls then (Inl (Duplicate_item url), seen_urls)
         else (Inr it, insert (py_key url) seen_urls))"

text \<open>
  One pipeline object processing a sequence of items in arrival order.
\<close>

fun run_duplicates :: "pyval set \<Rightarrow> item list \<Rightarrow> (drop_item + item) list" where
  "run_duplicates seen_urls [] = []"
| "run_duplicates seen_urls (it # its) =
     (case DuplicatesPipeline_process_item seen_urls it of
        (r, seen_urls') \<Rightarrow> r # run_duplicates seen_urls' its)"

definition identity :: "item \<Rightarrow> pyval" where
  "identity it = py_key (item_get it ''url'')"

definition accepted :: "(drop_item + item) list \<Rightarrow> item list" where
  "accepted rs = [it. Inr it \<leftarrow> rs]"

subsection \<open>DataEnrichmentPipeline\<close>

text \<open>
  One round of the loop over \<open>['has_elevator', 'has_balcony']\<close>.
\<close>

definition standardize_bool :: "string \<Rightarrow> item \<Rightarrow> item" where
  "standardize_bool bool_field it =
     (if item_get it bool_field \<noteq> PyNone
      then it(bool_field \<mapsto> PyBool (truthy (item_get it bool_field)))
      else it)"

text \<open>
  \<open>now\<close> is the text of \<open>datetime.now().isoformat()\<close> at the time of the
  call.  The first block of the source (price per square metre) is \<open>pass\<close>.
\<close>

definition DataEnrichmentPipeline_process_item :: "string \<Rightarrow> item \<Rightarrow> item" where
  "DataEnrichmentPipeline_process_item now it =
     (let it = fold standardize_bool [''has_elevator'', ''has_balcony''] it
      in if \<not> truthy (item_get it ''scraped_at'')
         then it(''scraped_at'' \<mapsto> PyStr now)
         else it)"

text \<open>
  \<open>parse_boolean\<close> of items.py, the input processor of the item loader for
  the two boolean fields.  \<open>str.lower()\<close> maps the ASCII capitals and the
  Latin-1 capitals (0xC0 to 0xDE without the multiplication sign 0xD7) to the
  letter 32 code points higher.
\<close>

definition py_lower :: "string \<Rightarrow> string" where
  "py_lower s =
     map (\<lambda>c. case map_of (zip ''ABCDEFGHIJKLMNOPQRSTUVWXYZ'' ''abcdefghijklmnopqrstuvwxyz'') c of
                None \<Rightarrow>
                  (let n = (of_char c :: nat)
                   in if 192 \<le> n \<and> n \<le> 222 \<and> n \<noteq> 215 then char_of (n + 32) else c)
              | Some l \<Rightarrow> l) s"

definition truthy_tokens :: "string list" where
  "truthy_tokens = [''yes'', ''ja'', ''true'', ''1'', ''finns'', ''hiss'']"

definition parse_boolean :: "pyval \<Rightarrow> bool" where
  "parse_boolean v =
     (if truthy v then py_strip (py_lower (py_str v)) \<in> set truthy_tokens else False)"


text \<open>
  A record is clean for the Enricher when both boolean fields are absent or
  strict booleans and \<open>scraped_at\<close> holds a non-empty value.
\<close>

definition is_bool_or_none :: "pyval \<Rightarrow> bool" where
  "is_bool_or_none v = (case v of PyNone \<Rightarrow> True | PyBool b \<Rightarrow> True | _ \<Rightarrow> False)"

definition is_clean :: "item \<Rightarrow> bool" where
  "is_clean it =
     (is_bool_or_none (item_get it ''has_elevator'') \<and> is_bool_or_none (item_get it ''has_balcony'')
      \<and> truthy (item_get it ''scraped_at''))"

subsection \<open>Sample items\<close>

definition listing_a :: item where
  "listing_a = [''url'' \<mapsto> PyStr ''https://x/1'', ''address'' \<mapsto> PyStr ''Test Street 123'']"

definition listing_b :: item where
  "listing_b = [''url'' \<mapsto> PyStr ''https://x/1'', ''address'' \<mapsto> PyStr ''Test Street 456'']"

definition listing_c :: item where
  "listing_c = [''url'' \<mapsto> PyStr ''https://x/2'', ''address'' \<mapsto> PyStr ''Test Street 789'']"

definition no_url_a :: item where
  "no_url_a = [''address'' \<mapsto> PyStr ''Test Street 123'']"

definition no_url_b :: item where
  "no_url_b = [''address'' \<mapsto> PyStr ''Test Street 456'']"

definition clean_listing :: item where
  "clean_listing =
     [''url'' \<mapsto> PyStr ''https://x/1'', ''has_elevator'' \<mapsto> PyBool True,
      ''has_balcony'' \<mapsto> PyBool False, ''scraped_at'' \<mapsto> PyStr ''2024-05-01T10:00:00'']"

definition listing_no_elevator :: item where
  "listing_no_elevator = [''url'' \<mapsto> PyStr ''https://x/1'', ''has_elevator'' \<mapsto> PyStr ''no'']"



definition listing_zero_price :: item where
  "listing_zero_price =
     [''url'' \<mapsto> PyStr ''https://example.com/apartment/123'', ''source'' \<mapsto> PyStr ''hemnet'',
      ''address'' \<mapsto> PyStr ''Test Street 123'', ''price'' \<mapsto> PyInt (mk_pyint 0)]"

section \<open>Range of the scores\<close>


lemma slib_range:
  assumes "0 \<le> k" "k \<le> 1" "0 < mx" "mx \<noteq> mn"
  shows "\<exists>s. score_lower_is_better k mx mn v = Inr s \<and> 0 \<le> s \<and> s \<le> 1"
proof (cases "v \<le> real_of_int mx")
  case True
  with assms show ?thesis
    by (simp add: score_lower_is_better_def fdiv_def)
next
  case False
  with assms have d: "0 < (v - real_of_int mx) / real_of_int mx" by simp
  then have "exp (- ((v - real_of_int mx) / real_of_int mx)) \<le> 1" by simp
  with assms have "k * exp (- ((v - real_of_int mx) / real_of_int mx)) \<le> 1"
    by (meson exp_ge_zero mult_le_one)
  moreover from assms have "0 \<le> k * exp (- ((v - real_of_int mx) / real_of_int mx))" by simp
  ultimately show ?thesis using False assms
    by (simp add: score_lower_is_better_def fdiv_def)
qed

lemma slib_unit:
  assumes "0 \<le> k" "k \<le> 1" "0 < mx" "mx \<noteq> mn"
  shows "in_unit (score_lower_is_better k mx mn v)"
  using slib_range [OF assms, of v] by (auto simp add: in_unit_def)

lemma rooms_range:
  assumes "0 < min_preferred_rooms p"
  shows "in_unit (score_rooms p r)"
  using assms by (cases r) (auto simp add: in_unit_def score_rooms_def fdiv_def Let_def)


lemma year_range: "in_unit (score_year_built p y)"
  by (cases y) (auto simp add: in_unit_def score_year_built_def fdiv_def)








lemma price_unit:
  "0 < max_preferred_price p \<Longrightarrow> max_preferred_price p \<noteq> min_acceptable_price p
   \<Longrightarrow> in_unit (score_price p x)"
  by (cases x) (simp_all add: score_price_def slib_unit, simp add: in_unit_def)

lemma fee_unit:
  "0 < max_preferred_fee p \<Longrightarrow> max_preferred_fee p \<noteq> min_acceptable_fee p
   \<Longrightarrow> in_unit (score_fee p x)"
  by (cases x) (simp_all add: score_fee_def slib_unit, simp add: in_unit_def)

lemma ppm2_unit:
  "0 < max_preferred_price_per_m2 p
   \<Longrightarrow> max_preferred_price_per_m2 p \<noteq> min_acceptable_price_per_m2 p
   \<Longrightarrow> in_unit (score_price_per_m2 p x)"
  by (cases x) (simp_all add: score_price_per_m2_def slib_unit, simp add: in_unit_def)





lemma calculate_returns:
  assumes "preferences_regular p"
  shows "\<exists>s. calculate_apartment_score w p a = Inr s"
proof -
  from assms have "in_unit (score_price p (price a))" "in_unit (score_fee p (fee a))"
    "in_unit (score_price_per_m2 p (price_per_m2 a))" "in_unit (score_rooms p (rooms a))"
    "in_unit (score_year_built p (year_built a))"
    by (simp_all add: price_unit fee_unit ppm2_unit rooms_range year_range preferences_regular_def)
  then show ?thesis
    by (auto simp add: in_unit_def calculate_apartment_score_def bind_error_def Let_def split: sum.splits)
qed


lemmas score_defs = calculate_apartment_score_def bind_error_def
      score_price_def score_fee_def score_price_per_m2_def score_rooms_def score_year_built_def
      score_floor_def score_lower_is_better_def fdiv_def truthy_opt_int_def Let_def
      default_weights_def default_preferences_def

lemma score_example: "calculate_apartment_score default_weights default_preferences apartment_example = Inr (73/120)"
  by (simp add: score_defs apartment_example_def)

lemma score_b: "calculate_apartment_score default_weights default_preferences apartment_b = Inr (391/1200)"
  by (simp add: score_defs apartment_b_def)

lemma score_c: "calculate_apartment_score default_weights default_preferences apartment_c = Inr (283/480)"
  by (simp add: score_defs apartment_c_def)



section \<open>Monotonicity of the lower-is-better scores\<close>

lemma slib_mono:
  assumes "mx \<noteq> mn" "v1 < v2" "v2 \<le> real_of_int mx"
  shows "\<exists>s1 s2. score_lower_is_better k mx mn v1 = Inr s1
            \<and> score_lower_is_better k mx mn v2 = Inr s2 \<and> s2 \<le> s1"
proof (cases "mn < mx")
  case True
  then have "(v1 - real_of_int mn) / real_of_int (mx - mn) \<le> (v2 - real_of_int mn) / real_of_int (mx - mn)"
    using assms by (simp add: divide_right_mono)
  then show ?thesis using assms
    by (auto simp add: score_lower_is_better_def fdiv_def)
next
  case False
  with assms have lt: "mx < mn" by simp
  then have "(v2 - real_of_int mn) / real_of_int (mx - mn) \<le> (v1 - real_of_int mn) / real_of_int (mx - mn)"
    using assms by (simp add: divide_right_mono_neg)
  moreover have "1 \<le> (v2 - real_of_int mn) / real_of_int (mx - mn)"
    using lt assms by (simp add: field_simps)
  ultimately show ?thesis using assms
    by (auto simp add: score_lower_is_better_def fdiv_def)
qed

text \<open>
  C4, as amended.  For \<open>score_price\<close>, \<open>score_fee\<close> and
  \<open>score_price_per_m2\<close>: when both values are at most the preferred ceiling
  (and the ceiling differs from the acceptable floor, so that the division is
  defined), the lower value never gets the lower sub-score.
\<close>

theorem lower_is_better_monotone:
  assumes "v1 < v2"
  shows "(max_preferred_price p \<noteq> min_acceptable_price p \<and> v2 \<le> real_of_int (max_preferred_price p)
           \<longrightarrow> (\<exists>s1 s2. score_price p (Some v1) = Inr s1 \<and> score_price p (Some v2) = Inr s2 \<and> s2 \<le> s1))
       \<and> (max_preferred_fee p \<noteq> min_acceptable_fee p \<and> v2 \<le> real_of_int (max_preferred_fee p)
           \<longrightarrow> (\<exists>s1 s2. score_fee p (Some v1) = Inr s1 \<and> score_fee p (Some v2) = Inr s2 \<and> s2 \<le> s1))
       \<and> (max_preferred_price_per_m2 p \<noteq> min_acceptable_price_per_m2 p
            \<and> v2 \<le> real_of_int (max_preferred_price_per_m2 p)
           \<longrightarrow> (\<exists>s1 s2. score_price_per_m2 p (Some v1) = Inr s1
                  \<and> score_price_per_m2 p (Some v2) = Inr s2 \<and> s2 \<le> s1))"
  unfolding score_price_def score_fee_def score_price_per_m2_def option.case
  using assms by (blast intro: slib_mono)

theorem lower_is_better_monotone_witness:
  "(2000000::real) < 3000000
   \<and> max_preferred_price default_preferences \<noteq> min_acceptable_price default_preferences
   \<and> (3000000::real) \<le> real_of_int (max_preferred_price default_preferences)
   \<and> score_price default_preferences (Some 2000000) = Inr (2/3)
   \<and> score_price default_preferences (Some 3000000) = Inr (1/3)
   \<and> (1/3::real) \<le> 2/3"
  using lower_is_better_monotone [of 2000000 3000000 default_preferences]
  by (simp add: score_price_def score_lower_is_better_def fdiv_def default_preferences_def)

text \<open>
  Counterexample to C4 when only the lower value is below the ceiling.  The linear
  branch reaches 0 at the ceiling and the decay branch starts at 0.3 just
  above it, so under the default preferences the price 3,900,000 scores 1/30
  and the higher price 4,100,000 scores \<open>0.3 * exp (-1/40)\<close>, which is more.
\<close>

theorem score_price_jump_at_ceiling:
  "(3900000::real) < 4100000
   \<and> (3900000::real) < real_of_int (max_preferred_price default_preferences)
   \<and> score_price default_preferences (Some 3900000) = Inr (1/30)
   \<and> score_price default_preferences (Some 4100000) = Inr (3/10 * exp (- (1/40)))
   \<and> (1/30::real) < 3/10 * exp (- (1/40))"
proof -
  have "1 + (- (1/40)::real) \<le> exp (- (1/40))" by (rule exp_ge_add_one_self)
  then have "(1/30::real) < 3/10 * exp (- (1/40))" by simp
  then show ?thesis
    by (simp add: score_price_def score_lower_is_better_def fdiv_def default_preferences_def)
qed

section \<open>Floor score\<close>

text \<open>
  C9.  When \<open>avoid_ground_floor\<close> is set, every present floor value at most 1
  scores exactly 0.2, whatever the preferred floor band is (set, unset, or
  zero); in particular floor 1 scores 0.2 under the default preferences.
\<close>

theorem score_floor_ground:
  "(avoid_ground_floor p \<and> f \<le> 1 \<longrightarrow> score_floor p (Some f) tf = 2/10)
   \<and> score_floor default_preferences (Some 1) tf = 2/10"
  by (simp add: score_floor_def default_preferences_def)

theorem score_floor_ground_witness:
  "avoid_ground_floor (default_preferences\<lparr>preferred_min_floor := Some 1, preferred_max_floor := Some 1\<rparr>)
   \<and> (0::real) \<le> 1
   \<and> score_floor (default_preferences\<lparr>preferred_min_floor := Some 1, preferred_max_floor := Some 1\<rparr>)
        (Some 0) None = 2/10"
  using score_floor_ground
    [of "default_preferences\<lparr>preferred_min_floor := Some 1, preferred_max_floor := Some 1\<rparr>" 0 None]
  by (simp add: default_preferences_def)

text \<open>
  C10.  A band bound of 0 is falsy, so the band test fails exactly as for an
  unset bound: with \<open>preferred_min_floor\<close> or \<open>preferred_max_floor\<close> equal to 0,
  every present floor value above 1 scores the neutral 0.8, which is also
  what the same preferences with the band removed give.
\<close>

theorem score_floor_zero_bound:
  assumes "preferred_min_floor p = Some 0 \<or> preferred_max_floor p = Some 0"
    and "1 < f"
  shows "score_floor p (Some f) tf = 8/10
         \<and> score_floor p (Some f) tf
             = score_floor (p\<lparr>preferred_min_floor := None, preferred_max_floor := None\<rparr>) (Some f) tf"
  using assms by (auto simp add: score_floor_def truthy_opt_int_def)

theorem score_floor_zero_bound_witness:
  "preferred_min_floor (default_preferences\<lparr>preferred_min_floor := Some 0\<rparr>) = Some 0
   \<and> (1::real) < 3
   \<and> score_floor (default_preferences\<lparr>preferred_min_floor := Some 0\<rparr>) (Some 3) (Some 5) = 8/10"
  using score_floor_zero_bound [of "default_preferences\<lparr>preferred_min_floor := Some 0\<rparr>" 3 "Some 5"]
  by (simp add: default_preferences_def)

section \<open>Ranking\<close>

lemma set_insert_desc: "set (insert_desc x xs) = insert x (set xs)"
  by (induction xs) auto

lemma mset_insert_desc: "mset (insert_desc x xs) = add_mset x (mset xs)"
  by (induction xs) auto

lemma sorted_insert_desc:
  "sorted_wrt (\<lambda>a b. snd b \<le> snd a) xs \<Longrightarrow> sorted_wrt (\<lambda>a b. snd b \<le> snd a) (insert_desc x xs)"
  by (induction xs) (auto simp add: set_insert_desc)

lemma sorted_sort_values_desc: "sorted_wrt (\<lambda>a b. snd b \<le> snd a) (sort_values_desc xs)"
  unfolding sort_values_desc_def by (induction xs) (simp_all add: sorted_insert_desc)

lemma mset_sort_values_desc: "mset (sort_values_desc xs) = mset xs"
  unfolding sort_values_desc_def by (induction xs) (simp_all add: mset_insert_desc)

lemma length_sort_values_desc: "length (sort_values_desc xs) = length xs"
  using mset_sort_values_desc [of xs] by (metis size_mset)

lemma length_rank_range: "length [1 ..< Suc (length xs)] = length xs"
  by (simp del: upt_Suc)

lemma rank_assign_rank: "map rank (assign_rank xs) = [1 ..< Suc (length xs)]"
proof -
  have "map rank (assign_rank xs) = map fst (zip [1 ..< Suc (length xs)] xs)"
    by (simp add: assign_rank_def case_prod_beta comp_def del: upt_Suc)
  also have "\<dots> = [1 ..< Suc (length xs)]"
    by (rule map_fst_zip) (rule length_rank_range)
  finally show ?thesis .
qed

lemma snd_zip_rank: "map snd (zip [1 ..< Suc (length xs)] xs) = xs"
  by (rule map_snd_zip) (rule length_rank_range)

lemma score_assign_rank: "map score (assign_rank xs) = map snd xs"
proof -
  have "map score (assign_rank xs) = map (\<lambda>x. snd (snd x)) (zip [1 ..< Suc (length xs)] xs)"
    by (simp add: assign_rank_def case_prod_beta del: upt_Suc)
  also have "\<dots> = map snd (map snd (zip [1 ..< Suc (length xs)] xs))"
    by (simp only: map_map comp_def)
  also have "\<dots> = map snd xs" by (simp only: snd_zip_rank)
  finally show ?thesis .
qed

lemma row_assign_rank: "map row (assign_rank xs) = map fst xs"
proof -
  have "map row (assign_rank xs) = map (\<lambda>x. fst (snd x)) (zip [1 ..< Suc (length xs)] xs)"
    by (simp add: assign_rank_def case_prod_beta del: upt_Suc)
  also have "\<dots> = map fst (map snd (zip [1 ..< Suc (length xs)] xs))"
    by (simp only: map_map comp_def)
  also have "\<dots> = map fst xs" by (simp only: snd_zip_rank)
  finally show ?thesis .
qed

lemma apply_scores_rows: "apply_scores w p df = Inr xs \<Longrightarrow> map fst xs = df"
  by (induction df arbitrary: xs) (auto simp add: bind_error_def split: sum.splits)

lemma apply_scores_values:
  "apply_scores w p df = Inr xs \<Longrightarrow>
   \<forall>x \<in> set xs. calculate_apartment_score w p (fst x) = Inr (snd x)"
  by (induction df arbitrary: xs) (auto simp add: bind_error_def split: sum.splits)

lemma apply_scores_returns:
  "preferences_regular p \<Longrightarrow> \<exists>xs. apply_scores w p df = Inr xs"
proof (induction df)
  case Nil
  then show ?case by simp
next
  case (Cons a df)
  from Cons obtain xs where "apply_scores w p df = Inr xs" by blast
  moreover from Cons.prems obtain s where "calculate_apartment_score w p a = Inr s"
    using calculate_returns by blast
  ultimately show ?case by (simp add: bind_error_def)
qed

lemma sorted_wrt_map_score:
  "sorted_wrt (\<lambda>a b. score b \<le> score a) out = sorted_wrt (\<lambda>a b. b \<le> a) (map score out)"
  by (simp add: sorted_wrt_map)

text \<open>
  With regular preferences the analysis always returns a ranked frame.
\<close>

lemma analyze_apartments_returns:
  "preferences_regular p \<Longrightarrow> \<exists>out. analyze_apartments w p df = Inr out"
  using apply_scores_returns [of p w df] by (auto simp add: analyze_apartments_def bind_error_def)

text \<open>
  C2.  Whenever \<open>analyze_apartments\<close> returns a frame for N rows, the rank
  column is exactly 1, 2, ..., N in output order, the score column never
  increases from one rank to the next, the output rows are the input rows in
  some order, and each carries its own score.
\<close>

theorem analyze_apartments_ranking:
  assumes "analyze_apartments w p df = Inr out"
  shows "map rank out = [1 ..< Suc (length df)]
       \<and> length out = length df
       \<and> sorted_wrt (\<lambda>a b. score b \<le> score a) out
       \<and> (\<forall>i. Suc i < length out \<longrightarrow> score (out ! Suc i) \<le> score (out ! i))
       \<and> mset (map row out) = mset df
       \<and> (\<forall>r \<in> set out. calculate_apartment_score w p (row r) = Inr (score r))"
proof -
  from assms obtain xs where xs: "apply_scores w p df = Inr xs"
    and out: "out = assign_rank (sort_values_desc xs)"
    by (auto simp add: analyze_apartments_def bind_error_def split: sum.splits)
  have len: "length xs = length df" using apply_scores_rows [OF xs] by (metis length_map)
  have r: "map rank out = [1 ..< Suc (length df)]"
    by (simp add: out rank_assign_rank length_sort_values_desc len)
  then have l: "length out = length df" by (metis length_map length_upt diff_Suc_1)
  have "sorted_wrt (\<lambda>a b. b \<le> a) (map snd (sort_values_desc xs))"
    using sorted_sort_values_desc [of xs] by (simp add: sorted_wrt_map)
  then have s: "sorted_wrt (\<lambda>a b. score b \<le> score a) out"
    by (simp add: sorted_wrt_map_score out score_assign_rank)
  have c: "\<forall>i. Suc i < length out \<longrightarrow> score (out ! Suc i) \<le> score (out ! i)"
  proof (intro allI impI)
    fix i assume "Suc i < length out"
    with s show "score (out ! Suc i) \<le> score (out ! i)"
      by (simp add: sorted_wrt_iff_nth_less)
  qed
  have "mset (map row out) = mset (map fst (sort_values_desc xs))"
    by (simp add: out row_assign_rank)
  also have "\<dots> = image_mset fst (mset (sort_values_desc xs))" by simp
  also have "\<dots> = image_mset fst (mset xs)" by (simp add: mset_sort_values_desc)
  also have "\<dots> = mset (map fst xs)" by simp
  finally have m: "mset (map row out) = mset df" by (simp add: apply_scores_rows [OF xs])
  have v: "\<forall>r \<in> set out. calculate_apartment_score w p (row r) = Inr (score r)"
  proof
    fix r assume "r \<in> set out"
    then obtain k x where "x \<in> set (sort_values_desc xs)" and rx: "row r = fst x" "score r = snd x"
      by (auto simp add: out assign_rank_def dest!: set_zip_rightD)
    then have "x \<in> set xs" using mset_sort_values_desc [of xs] by (metis set_mset_mset)
    with apply_scores_values [OF xs] rx show "calculate_apartment_score w p (row r) = Inr (score r)"
      by simp
  qed
  from r l s c m v show ?thesis by blast
qed

lemma analyze_sample:
  "analyze_apartments default_weights default_preferences [apartment_example, apartment_b, apartment_c]
     = Inr [\<lparr> row = apartment_example, score = 73/120, rank = 1 \<rparr>,
            \<lparr> row = apartment_c, score = 283/480, rank = 2 \<rparr>,
            \<lparr> row = apartment_b, score = 391/1200, rank = 3 \<rparr>]"
  by (simp add: analyze_apartments_def bind_error_def score_example score_b score_c
      sort_values_desc_def assign_rank_def upt_rec)

theorem analyze_apartments_ranking_witness:
  "analyze_apartments default_weights default_preferences [apartment_example, apartment_b, apartment_c]
     = Inr [\<lparr> row = apartment_example, score = 73/120, rank = 1 \<rparr>,
            \<lparr> row = apartment_c, score = 283/480, rank = 2 \<rparr>,
            \<lparr> row = apartment_b, score = 391/1200, rank = 3 \<rparr>]
   \<and> map rank [\<lparr> row = apartment_example, score = 73/120, rank = 1 \<rparr>,
            \<lparr> row = apartment_c, score = 283/480, rank = 2 \<rparr>,
            \<lparr> row = apartment_b, score = 391/1200, rank = 3 \<rparr>] = [1 ..< Suc (length [apartment_example, apartment_b, apartment_c])]"
  using analyze_apartments_ranking [OF analyze_sample] analyze_sample by blast

section \<open>Deduplication\<close>

lemma run_length: "length (run_duplicates seen its) = length its"
  by (induction its arbitrary: seen) (auto simp add: DuplicatesPipeline_process_item_def Let_def)

lemma accepted_run_general:
  "filter (\<lambda>it. identity it = u) (accepted (run_duplicates seen its))
     = (if u \<in> seen then [] else take 1 (filter (\<lambda>it. identity it = u) its))"
proof (induction its arbitrary: seen)
  case Nil
  then show ?case by (simp add: accepted_def)
next
  case (Cons it its)
  show ?case
  proof (cases "identity it \<in> seen")
    case True
    then show ?thesis using Cons.IH [of seen]
      by (auto simp add: DuplicatesPipeline_process_item_def Let_def accepted_def identity_def)
  next
    case False
    then show ?thesis using Cons.IH [of "insert (identity it) seen"]
      by (auto simp add: DuplicatesPipeline_process_item_def Let_def accepted_def identity_def)
  qed
qed

lemma run_nth_general:
  "i < length its \<Longrightarrow>
   run_duplicates seen its ! i =
     (if identity (its ! i) \<in> seen \<union> identity ` set (take i its)
      then Inl (Duplicate_item (item_get (its ! i) ''url''))
      else Inr (its ! i))"
proof (induction its arbitrary: seen i)
  case Nil
  then show ?case by simp
next
  case (Cons it its)
  show ?case
  proof (cases i)
    case 0
    then show ?thesis
      by (simp add: DuplicatesPipeline_process_item_def Let_def identity_def)
  next
    case (Suc j)
    with Cons.prems have j: "j < length its" by simp
    show ?thesis
    proof (cases "identity it \<in> seen")
      case True
      then have "insert (identity it) seen = seen" by blast
      with True Suc Cons.IH [OF j, of seen] show ?thesis
        by (simp add: DuplicatesPipeline_process_item_def Let_def identity_def)
    next
      case False
      with Suc Cons.IH [OF j, of "insert (identity it) seen"] show ?thesis
        by (simp add: DuplicatesPipeline_process_item_def Let_def identity_def)
    qed
  qed
qed

lemma rejected_count_general:
  "length (filter (\<lambda>(it, r). identity it = u \<and> isl r) (zip its (run_duplicates seen its)))
     = (if u \<in> seen then length (filter (\<lambda>it. identity it = u) its)
        else length (filter (\<lambda>it. identity it = u) its) - 1)"
proof (induction its arbitrary: seen)
  case Nil
  then show ?case by simp
next
  case (Cons it its)
  show ?case
  proof (cases "identity it \<in> seen")
    case True
    then show ?thesis using Cons.IH [of seen]
      by (auto simp add: DuplicatesPipeline_process_item_def Let_def identity_def)
  next
    case False
    then show ?thesis using Cons.IH [of "insert (identity it) seen"]
      by (auto simp add: DuplicatesPipeline_process_item_def Let_def identity_def)
  qed
qed

lemma image_take_iff:
  assumes "i \<le> length xs"
  shows "(y \<in> f ` set (take i xs)) = (\<exists>j<i. f (xs ! j) = y)"
proof
  assume "y \<in> f ` set (take i xs)"
  then obtain x where x: "x \<in> set (take i xs)" and fx: "f x = y" by blast
  from x obtain j where j: "j < length (take i xs)" and tj: "take i xs ! j = x"
    unfolding in_set_conv_nth by blast
  from j assms have ji: "j < i" by simp
  then have "xs ! j = x" using tj by simp
  with ji fx show "\<exists>j<i. f (xs ! j) = y" by blast
next
  assume "\<exists>j<i. f (xs ! j) = y"
  then obtain j where ji: "j < i" and fj: "f (xs ! j) = y" by blast
  from ji assms have "j < length (take i xs)" by simp
  then have "take i xs ! j \<in> set (take i xs)" by (rule nth_mem)
  with ji have "xs ! j \<in> set (take i xs)" by simp
  with fj show "y \<in> f ` set (take i xs)" by blast
qed

lemma run_nth_fresh:
  assumes i: "i < length its"
  shows "run_duplicates {} its ! i =
         (if \<exists>j<i. identity (its ! j) = identity (its ! i)
          then Inl (Duplicate_item (item_get (its ! i) ''url''))
          else Inr (its ! i))"
proof -
  from i have "i \<le> length its" by simp
  then have "(identity (its ! i) \<in> identity ` set (take i its))
               = (\<exists>j<i. identity (its ! j) = identity (its ! i))"
    by (rule image_take_iff)
  with run_nth_general [OF i, of "{}"] show ?thesis by simp
qed

lemma identity_text: "item_get it ''url'' = PyStr s \<Longrightarrow> identity it = PyStr s"
  by (simp add: identity_def)

text \<open>
  C3.  A fresh pipeline that processes a sequence of items accepts an item
  exactly when no earlier item of the sequence has the same \<open>url\<close>, and
  drops it as a duplicate otherwise; no other field is looked at.  Hence, of
  the M items that share the identity \<open>u\<close>, the accepted ones are the first
  alone and the dropped ones number M - 1.
\<close>

theorem first_occurrence_wins:
  "(\<forall>i. i < length its \<longrightarrow>
       run_duplicates {} its ! i =
         (if \<exists>j<i. identity (its ! j) = identity (its ! i)
          then Inl (Duplicate_item (item_get (its ! i) ''url''))
          else Inr (its ! i)))
   \<and> length (run_duplicates {} its) = length its
   \<and> filter (\<lambda>it. identity it = u) (accepted (run_duplicates {} its))
       = take 1 (filter (\<lambda>it. identity it = u) its)
   \<and> length (filter (\<lambda>(it, r). identity it = u \<and> isl r) (zip its (run_duplicates {} its)))
       = length (filter (\<lambda>it. identity it = u) its) - 1"
proof -
  have a: "\<forall>i. i < length its \<longrightarrow>
       run_duplicates {} its ! i =
         (if \<exists>j<i. identity (its ! j) = identity (its ! i)
          then Inl (Duplicate_item (item_get (its ! i) ''url''))
          else Inr (its ! i))"
    using run_nth_fresh by blast
  have b: "length (run_duplicates {} its) = length its" by (rule run_length)
  have c: "filter (\<lambda>it. identity it = u) (accepted (run_duplicates {} its))
       = take 1 (filter (\<lambda>it. identity it = u) its)"
    using accepted_run_general [of u "{}" its] by simp
  have d: "length (filter (\<lambda>(it, r). identity it = u \<and> isl r) (zip its (run_duplicates {} its)))
       = length (filter (\<lambda>it. identity it = u) its) - 1"
    using rejected_count_general [of u its "{}"] by simp
  from a b c d show ?thesis by blast
qed

theorem first_occurrence_wins_witness:
  "run_duplicates {} [listing_a, listing_c, listing_b]
     = [Inr listing_a, Inr listing_c, Inl (Duplicate_item (PyStr ''https://x/1''))]
   \<and> filter (\<lambda>it. identity it = PyStr ''https://x/1'')
        (accepted (run_duplicates {} [listing_a, listing_c, listing_b])) = [listing_a]
   \<and> run_duplicates {} [listing_a, listing_c, listing_b] ! 2
        = Inl (Duplicate_item (PyStr ''https://x/1''))"
  using first_occurrence_wins [of "[listing_a, listing_c, listing_b]" "PyStr ''https://x/1''"]
  by (simp add: DuplicatesPipeline_process_item_def Let_def item_get_def identity_def
      listing_a_def listing_b_def listing_c_def accepted_def)

text \<open>
  C8.  Items without a \<open>url\<close> are meant to be always unique.  The
  source puts the \<open>None\<close> of the first such item into \<open>seen_urls\<close>, so the
  second item without a \<open>url\<close> is dropped as a duplicate of the first.
\<close>

theorem second_item_without_url_dropped:
  "item_get no_url_a ''url'' = PyNone \<and> item_get no_url_b ''url'' = PyNone
   \<and> run_duplicates {} [no_url_a, no_url_b] = [Inr no_url_a, Inl (Duplicate_item PyNone)]"
  by (simp add: DuplicatesPipeline_process_item_def Let_def item_get_def no_url_a_def no_url_b_def)

section \<open>Validation of the price\<close>

lemma int_of_small: "\<bar>n\<bar> < 10 ^ 9 \<Longrightarrow> int_of (mk_pyint n) = n"
proof -
  assume n: "\<bar>n\<bar> < 10 ^ 9"
  have "(10::int) ^ 9 \<le> 10 ^ max_str_digits"
    unfolding max_str_digits_def by (rule power_increasing) simp_all
  with n have "\<bar>n\<bar> < 10 ^ max_str_digits" by linarith
  then show ?thesis by (simp add: mk_pyint_inverse)
qed



lemmas int_defs = py_int_def int_strip_def int_body_def is_int_space_def is_digit_def
  digit_val_def max_str_digits_def remove_separators_def








text \<open>
  The price block is guarded by the truth value of the price, so the integer
  0 is never compared with 0 and the item is kept.
\<close>

lemma zero_price_not_checked:
  "ValidationPipeline_process_item listing_zero_price = Inr listing_zero_price"
  by (simp add: ValidationPipeline_process_item_def required_fields_def validate_price_def
      validate_after_price_def validate_fee_def validate_rooms_def listing_zero_price_def
      item_get_def int_of_small)

text \<open>
  The white space of \<open>int\<close>: a separator character (0x1C to 0x1F) around the
  number is not skipped, so the price is not a number; a no-break space is
  skipped.  \<open>str.strip()\<close> removes both.
\<close>

lemma int_white_space:
  "py_int [char_of (31::nat), CHR ''-'', CHR ''1'', char_of (28::nat)] = None
   \<and> py_int [char_of (160::nat), CHR ''-'', CHR ''5''] = Some (- 5)
   \<and> py_int ''\<newline> 42 '' = Some 42
   \<and> py_strip [char_of (31::nat), CHR ''1'', char_of (160::nat)] = ''1''"
  by (simp add: int_defs py_strip_def is_space_def)

text \<open>
  The rooms block can end the method with an exception that is no
  \<open>DropItem\<close>: an integer room count from 2^1024 - 2^970 on overflows the
  float conversion.
\<close>

lemma float_overflow_bound_pos: "0 < float_overflow_bound"
proof -
  have "(2::int) ^ 970 < 2 ^ 1024" by (rule power_strict_increasing) simp_all
  then show ?thesis by (simp only: float_overflow_bound_def diff_gt_0_iff_gt)
qed

lemma rooms_overflow_raises:
  assumes "check_required required_fields it = None"
    and "validate_price it = None" and "validate_fee it = None"
    and r: "item_get it ''rooms'' = PyInt n"
    and b: "float_overflow_bound \<le> \<bar>int_of n\<bar>"
  shows "ValidationPipeline_process_item it = Inl OverflowError"
proof -
  from b float_overflow_bound_pos have "int_of n \<noteq> 0" by linarith
  with r b have "validate_rooms it = Some OverflowError"
    by (simp add: validate_rooms_def)
  with assms show ?thesis
    by (simp add: ValidationPipeline_process_item_def validate_after_price_def)
qed

section \<open>Enrichment\<close>

lemma item_get_upd: "item_get (it(k \<mapsto> v)) k' = (if k' = k then v else item_get it k')"
  by (simp add: item_get_def)

lemma item_upd_same: "item_get it k = v \<Longrightarrow> v \<noteq> PyNone \<Longrightarrow> it(k \<mapsto> v) = it"
  by (auto simp add: item_get_def split: option.splits)

lemma standardize_bool_get:
  "item_get (standardize_bool f it) k =
     (if k = f \<and> item_get it f \<noteq> PyNone then PyBool (truthy (item_get it f)) else item_get it k)"
  by (simp add: standardize_bool_def item_get_upd)

lemma enrich_get:
  "item_get (DataEnrichmentPipeline_process_item now it) k =
     (if k = ''has_elevator'' \<or> k = ''has_balcony'' then
        (if item_get it k = PyNone then PyNone else PyBool (truthy (item_get it k)))
      else if k = ''scraped_at'' \<and> \<not> truthy (item_get it ''scraped_at'') then PyStr now
      else item_get it k)"
  by (simp add: DataEnrichmentPipeline_process_item_def Let_def standardize_bool_get item_get_upd)

lemma standardize_bool_clean:
  "is_bool_or_none (item_get it f) \<Longrightarrow> standardize_bool f it = it"
  by (cases "item_get it f")
     (simp_all add: standardize_bool_def is_bool_or_none_def item_upd_same)

lemma enrich_clean:
  assumes "is_clean it"
  shows "DataEnrichmentPipeline_process_item now it = it"
  using assms
  by (simp add: DataEnrichmentPipeline_process_item_def Let_def is_clean_def standardize_bool_clean)

lemma enrich_makes_clean:
  assumes "now \<noteq> []"
  shows "is_clean (DataEnrichmentPipeline_process_item now it)"
  using assms
  by (cases "item_get it ''has_elevator''"; cases "item_get it ''has_balcony''")
     (simp_all add: is_clean_def enrich_get is_bool_or_none_def)

text \<open>
  C6, as amended.  The Enricher does not match tokens: a boolean field that
  is present (not \<open>None\<close>) is replaced by its Python truth value, so every
  non-empty text and every non-zero number becomes true; an absent field
  stays absent.
\<close>

theorem enricher_truthiness:
  assumes "bool_field = ''has_elevator'' \<or> bool_field = ''has_balcony''"
  shows "item_get (DataEnrichmentPipeline_process_item now it) bool_field =
           (if item_get it bool_field = PyNone then PyNone
            else PyBool (truthy (item_get it bool_field)))"
  using assms by (auto simp add: enrich_get)

theorem enricher_truthiness_witness:
  "item_get listing_no_elevator ''has_elevator'' = PyStr ''no''
   \<and> item_get (DataEnrichmentPipeline_process_item ''2025-01-01T00:00:00'' listing_no_elevator)
        ''has_elevator'' = PyBool True"
  using enricher_truthiness [of "''has_elevator''" "''2025-01-01T00:00:00''" listing_no_elevator]
  by (simp add: listing_no_elevator_def item_get_def)

text \<open>
  Counterexample to C6: the text \<open>no\<close> is not one of the six tokens, and
  \<open>parse_boolean\<close> maps it to false, but the Enricher turns it into true.
\<close>

theorem enricher_ignores_tokens:
  "item_get listing_no_elevator ''has_elevator'' = PyStr ''no''
   \<and> ''no'' \<notin> set truthy_tokens
   \<and> \<not> parse_boolean (PyStr ''no'')
   \<and> item_get (DataEnrichmentPipeline_process_item ''2025-01-01T00:00:00'' listing_no_elevator)
        ''has_elevator'' = PyBool True"
  by (simp add: listing_no_elevator_def item_get_def truthy_tokens_def parse_boolean_def
      py_strip_def py_lower_def is_space_def DataEnrichmentPipeline_process_item_def Let_def
      standardize_bool_def)

text \<open>
  The tokens are matched by \<open>parse_boolean\<close>, on the lower-cased and stripped
  text of a true value.
\<close>

lemma parse_boolean_examples:
  "parse_boolean (PyStr '' Ja '') \<and> parse_boolean (PyBool True)
   \<and> parse_boolean (PyInt (mk_pyint 1))
   \<and> parse_boolean (PyStr [char_of (160::nat), CHR ''Y'', CHR ''e'', CHR ''s''])
   \<and> \<not> parse_boolean (PyStr ''nej'') \<and> \<not> parse_boolean (PyStr [])"
  by (simp add: truthy_tokens_def parse_boolean_def py_strip_def py_lower_def is_space_def
      str_of_int_def str_of_nat.simps digit_char_def int_of_small char_of_eq_iff take_bit_eq_mod)

text \<open>
  C7.  The Enricher changes nothing on a clean record; a second application
  after a first one (whose clock text is not empty) changes nothing, whatever
  the record was; and a \<open>scraped_at\<close> value that is already there is kept.
\<close>

theorem enricher_idempotent:
  "(is_clean it \<longrightarrow> DataEnrichmentPipeline_process_item now it = it)
   \<and> (now \<noteq> [] \<longrightarrow>
        DataEnrichmentPipeline_process_item later (DataEnrichmentPipeline_process_item now it)
          = DataEnrichmentPipeline_process_item now it)
   \<and> (truthy (item_get it ''scraped_at'') \<longrightarrow>
        item_get (DataEnrichmentPipeline_process_item now it) ''scraped_at''
          = item_get it ''scraped_at'')"
  by (simp add: enrich_clean enrich_makes_clean enrich_get)

theorem enricher_idempotent_witness:
  "is_clean clean_listing
   \<and> DataEnrichmentPipeline_process_item ''2025-01-01T00:00:00'' clean_listing = clean_listing
   \<and> ''2024-05-01T10:00:00'' \<noteq> []
   \<and> truthy (item_get clean_listing ''scraped_at'')
   \<and> item_get (DataEnrichmentPipeline_process_item ''2025-01-01T00:00:00'' clean_listing) ''scraped_at''
        = PyStr ''2024-05-01T10:00:00''"
  using enricher_idempotent [of clean_listing "''2025-01-01T00:00:00''" "''2025-01-01T00:00:00''"]
  by (simp add: is_clean_def is_bool_or_none_def clean_listing_def item_get_def)

end
